theory Spec2Isabelle
  imports Main "HOL-Library.AList" "HOL-Library.Sublist"
begin

section \<open>The Python bridge of the ModuMentor backend\<close>

text \<open>
  A shallow embedding of \<^verbatim>\<open>src/python_bridge.py\<close>: the five command handlers,
  \<^verbatim>\<open>initialize_agent\<close> and \<^verbatim>\<open>main\<close>.

  \<^item> A Python \<^verbatim>\<open>str\<close> is embedded as the list of bytes of its UTF-8 encoding, so the
    emoji and the bullet of the report are written byte by byte. The bridge only
    concatenates and joins text, which commutes with the encoding.
  \<^item> A dict is an association list in insertion order; a missing key raises
    \<^verbatim>\<open>KeyError\<close>.
  \<^item> An exception is a value: a computation that may raise returns \<open>exn + 'a\<close>,
    with \<open>Inl\<close> for the raised exception. A clause \<^verbatim>\<open>except Exception\<close> handles the
    instances of \<^verbatim>\<open>Exception\<close> and lets every other fault through; a handler and
    \<^verbatim>\<open>main\<close> can therefore end by raising.
  \<^item> The module-level variable \<^verbatim>\<open>agent\<close> is a field of an explicit state, which every
    handler takes and returns. The state also records the calls made to the collaborator.
  \<^item> The agent, its conversation memory and its constructor are code outside the bridge:
    they are parameters, each giving the value returned or the exception raised. A call
    that never returns is outside the model.
  \<^item> Diagnostic lines printed to the secondary stream do not influence any Result and
    are left out; the error documents \<^verbatim>\<open>main\<close> prints there are kept.
\<close>

subsection \<open>Keys\<close>

text \<open>
  The keys the bridge looks up in the dicts of the collaborator. All are literals of
  the source, made of lower-case letters and underscores.
\<close>

datatype key =
    K_has_conversation
  | K_summary
  | K_topics
  | K_sentiment
  | K_insights
  | K_recent_messages
  | K_total_messages
  | K_user_messages
  | K_assistant_messages
  | K_conversation_duration_hours
  | K_conversation_start
  | K_last_activity
  | K_overall_sentiment
  | K_engagement_level
  | K_question_count
  | K_role
  | K_timestamp
  | K_content

fun key_name :: "key \<Rightarrow> string" where
  "key_name K_has_conversation = ''has_conversation''"
| "key_name K_summary = ''summary''"
| "key_name K_topics = ''topics''"
| "key_name K_sentiment = ''sentiment''"
| "key_name K_insights = ''insights''"
| "key_name K_recent_messages = ''recent_messages''"
| "key_name K_total_messages = ''total_messages''"
| "key_name K_user_messages = ''user_messages''"
| "key_name K_assistant_messages = ''assistant_messages''"
| "key_name K_conversation_duration_hours = ''conversation_duration_hours''"
| "key_name K_conversation_start = ''conversation_start''"
| "key_name K_last_activity = ''last_activity''"
| "key_name K_overall_sentiment = ''overall_sentiment''"
| "key_name K_engagement_level = ''engagement_level''"
| "key_name K_question_count = ''question_count''"
| "key_name K_role = ''role''"
| "key_name K_timestamp = ''timestamp''"
| "key_name K_content = ''content''"

subsection \<open>Exceptions\<close>

text \<open>
  The faults the bridge can meet.
  \<^item> \<open>KeyError k\<close>: a lookup of the key \<open>k\<close> in a dict that lacks it.
  \<^item> \<open>AttributeError m\<close>: an attribute read on \<^verbatim>\<open>None\<close>, with message \<open>m\<close>.
  \<^item> \<open>CollaboratorError d\<close>: any other instance of \<^verbatim>\<open>Exception\<close>, raised by the
    collaborator; \<open>d\<close> is what \<^verbatim>\<open>str(e)\<close> gives for it.
  \<^item> \<open>CancelledError d\<close>: \<^verbatim>\<open>asyncio.CancelledError\<close>, which derives from
    \<^verbatim>\<open>BaseException\<close> and not from \<^verbatim>\<open>Exception\<close>; \<open>d\<close> is what \<^verbatim>\<open>str(e)\<close> gives.
  \<^verbatim>\<open>SystemExit\<close> and \<^verbatim>\<open>KeyboardInterrupt\<close> pass an \<^verbatim>\<open>except Exception\<close> clause like
  \<^verbatim>\<open>CancelledError\<close>, but end the process with a status of their own; they are not
  represented.
\<close>

datatype exn =
    KeyError key
  | AttributeError string
  | CollaboratorError string
  | CancelledError string

text \<open>\<^verbatim>\<open>isinstance(e, Exception)\<close>\<close>

fun is_exception :: "exn \<Rightarrow> bool" where
  "is_exception (KeyError k) = True"
| "is_exception (AttributeError m) = True"
| "is_exception (CollaboratorError d) = True"
| "is_exception (CancelledError d) = False"

text \<open>
  \<^verbatim>\<open>str(e)\<close>: a \<^verbatim>\<open>KeyError\<close> shows the repr of its key, which for the keys above is
  the name between single quotes; the others show their message.
\<close>

fun str_exn :: "exn \<Rightarrow> string" where
  "str_exn (KeyError k) = [CHR 0x27] @ key_name k @ [CHR 0x27]"
| "str_exn (AttributeError m) = m"
| "str_exn (CollaboratorError d) = d"
| "str_exn (CancelledError d) = d"

definition try_bind :: "exn + 'a \<Rightarrow> ('a \<Rightarrow> exn + 'b) \<Rightarrow> exn + 'b" where
  "try_bind m f = (case m of Inl e \<Rightarrow> Inl e | Inr v \<Rightarrow> f v)"

text \<open>
  \<^verbatim>\<open>try: ... except Exception as e: return h(e)\<close>: a value of the block is kept, an
  instance of \<^verbatim>\<open>Exception\<close> becomes the value of the clause, any other fault goes on.
\<close>

definition except_Exception :: "exn + 'a \<Rightarrow> (exn \<Rightarrow> 'a) \<Rightarrow> exn + 'a" where
  "except_Exception m h =
     (case m of
        Inr v \<Rightarrow> Inr v
      | Inl e \<Rightarrow> if is_exception e then Inr (h e) else Inl e)"

text \<open>\<^verbatim>\<open>d[k]\<close> on a dict.\<close>

definition getitem :: "(string \<times> 'v) list \<Rightarrow> key \<Rightarrow> exn + 'v" where
  "getitem d k = (case map_of d (key_name k) of None \<Rightarrow> Inl (KeyError k) | Some v \<Rightarrow> Inr v)"

subsection \<open>Text\<close>

text \<open>\<^verbatim>\<open>sep.join(xs)\<close>.\<close>

fun join :: "string \<Rightarrow> string list \<Rightarrow> string" where
  "join sep [] = []"
| "join sep [x] = x"
| "join sep (x # y # ys) = x @ sep @ join sep (y # ys)"

definition lower_letters :: string where
  "lower_letters = ''abcdefghijklmnopqrstuvwxyz''"

definition upper_letters :: string where
  "upper_letters = ''ABCDEFGHIJKLMNOPQRSTUVWXYZ''"

definition is_cased :: "char \<Rightarrow> bool" where
  "is_cased c = (c \<in> set (lower_letters @ upper_letters))"

definition to_upper :: "char \<Rightarrow> char" where
  "to_upper c = (case map_of (zip lower_letters upper_letters) c of Some u \<Rightarrow> u | None \<Rightarrow> c)"

definition to_lower :: "char \<Rightarrow> char" where
  "to_lower c = (case map_of (zip upper_letters lower_letters) c of Some l \<Rightarrow> l | None \<Rightarrow> c)"

text \<open>
  \<^verbatim>\<open>s.title()\<close>: a letter that follows a cased character is lowered, any other letter is
  raised. The model is exact on ASCII text; the bytes of a character beyond ASCII are
  left as they are and count as uncased.
\<close>

fun title_from :: "bool \<Rightarrow> string \<Rightarrow> string" where
  "title_from prev [] = []"
| "title_from prev (c # cs) =
     (if prev then to_lower c else to_upper c) # title_from (is_cased c) cs"

definition title :: "string \<Rightarrow> string" where
  "title s = title_from False s"

text \<open>\<^verbatim>\<open>str(n)\<close> for the non-negative integer that \<^verbatim>\<open>len\<close> returns.\<close>

function str_nat :: "nat \<Rightarrow> string" where
  "str_nat n =
     (if n < 10 then [''0123456789'' ! n]
      else str_nat (n div 10) @ [''0123456789'' ! (n mod 10)])"
  by pat_completeness auto
termination
  by (relation "measure (\<lambda>n. n)") auto

declare str_nat.simps [simp del]

subsection \<open>Results\<close>

text \<open>
  A Result is the dict a handler returns and \<^verbatim>\<open>main\<close> prints as one JSON document:
  its values are strings, booleans and, for \<^verbatim>\<open>test_results\<close>, a nested dict.
\<close>

datatype json =
    JString string
  | JBool bool
  | JObject "(string \<times> json) list"

type_synonym result = "(string \<times> json) list"

definition has_field :: "result \<Rightarrow> string \<Rightarrow> bool" where
  "has_field r k = (k \<in> set (map fst r))"

subsection \<open>The collaborator\<close>

text \<open>
  What \<^verbatim>\<open>agent.conversation_memory.analyze_conversation\<close> returns: a dict. A field
  that is \<open>None\<close> is a key the dict does not have. In \<^verbatim>\<open>sentiment\<close> the values of
  \<^verbatim>\<open>overall_sentiment\<close> and \<^verbatim>\<open>engagement_level\<close>, and in a message the value of
  \<^verbatim>\<open>role\<close>, are Python strings, on which the bridge calls \<^verbatim>\<open>title\<close>. The other values
  of \<^verbatim>\<open>summary\<close>, \<^verbatim>\<open>sentiment\<close> and of a message are only formatted in an f-string
  and are held as the text this gives.
\<close>

type_synonym pydict = "(string \<times> string) list"

record analysis =
  has_conversation :: "bool option"
  summary :: "pydict option"
  topics :: "string list option"
  sentiment :: "pydict option"
  insights :: "string list option"
  recent_messages :: "pydict list option"

text \<open>\<^verbatim>\<open>analysis["k"]\<close>.\<close>

definition analysis_item :: "'v option \<Rightarrow> key \<Rightarrow> exn + 'v" where
  "analysis_item field k = (case field of None \<Rightarrow> Inl (KeyError k) | Some v \<Rightarrow> Inr v)"

text \<open>
  The constructor \<^verbatim>\<open>IntelligentAgent()\<close> and the four operations the bridge calls on an
  agent of type \<open>'a\<close>. The two asynchronous ones are taken at the point where
  \<^verbatim>\<open>run_until_complete\<close> returns or raises.
\<close>

record 'a collaborator =
  IntelligentAgent :: "exn + 'a"
  agent_process_message :: "'a \<Rightarrow> string \<Rightarrow> string \<Rightarrow> exn + string"
  agent_clear_conversation :: "'a \<Rightarrow> string \<Rightarrow> exn + string"
  agent_get_help_message :: "'a \<Rightarrow> exn + string"
  memory_analyze_conversation :: "'a \<Rightarrow> string \<Rightarrow> exn + analysis"

datatype call =
    Construct
  | ProcessMessage string string
  | ClearConversation string
  | GetHelpMessage
  | AnalyzeConversation string

text \<open>
  The global \<^verbatim>\<open>agent\<close> (\<open>None\<close> is Python's \<^verbatim>\<open>None\<close>; an agent object is truthy) and
  the calls made to the collaborator so far, oldest first.
\<close>

record 'a bridge_state =
  agent :: "'a option"
  calls :: "call list"

definition logged :: "call \<Rightarrow> 'a bridge_state \<Rightarrow> 'a bridge_state" where
  "logged c st = st\<lparr>calls := calls st @ [c]\<rparr>"

text \<open>Reading an attribute of the global: on \<^verbatim>\<open>None\<close> it raises \<^verbatim>\<open>AttributeError\<close>.\<close>

definition getattr :: "'a option \<Rightarrow> string \<Rightarrow> exn + 'a" where
  "getattr h name =
     (case h of
        None \<Rightarrow>
          Inl (AttributeError
            ([CHR 0x27] @ ''NoneType'' @ [CHR 0x27] @ '' object has no attribute '' @
             [CHR 0x27] @ name @ [CHR 0x27]))
      | Some a \<Rightarrow> Inr a)"

subsection \<open>Lifecycle\<close>

text \<open>
  The constructor runs in a \<^verbatim>\<open>try\<close> block. When it returns, the global is set and the
  function returns \<^verbatim>\<open>True\<close>. When it raises an instance of \<^verbatim>\<open>Exception\<close>, the global is
  set to \<^verbatim>\<open>None\<close> and the function returns \<^verbatim>\<open>False\<close>. Any other fault leaves the
  function with the global as it was.
\<close>

definition initialize_agent ::
  "'a collaborator \<Rightarrow> 'a bridge_state \<Rightarrow> (exn + bool) \<times> 'a bridge_state" where
  "initialize_agent env st =
     (case IntelligentAgent env of
        Inr a \<Rightarrow> (Inr True, logged Construct (st\<lparr>agent := Some a\<rparr>))
      | Inl e \<Rightarrow>
          if is_exception e then (Inr False, logged Construct (st\<lparr>agent := None\<rparr>))
          else (Inl e, logged Construct st))"

text \<open>
  The Result of a handler whose lazy initialisation failed, as \<^verbatim>\<open>process_message\<close> and
  \<^verbatim>\<open>analyze_conversation\<close> write it.
\<close>

definition agent_unavailable :: result where
  "agent_unavailable =
     [(''error'', JString ''Failed to initialize intelligent agent''),
      (''response'', JString ''I'm sorry, but I'm having trouble connecting to my AI brain right now. Please try again later.'')]"

text \<open>A parameter with the default \<^verbatim>\<open>user_id="web-user"\<close>: \<open>None\<close> is the omitted argument.\<close>

definition user_id_or_default :: "string option \<Rightarrow> string" where
  "user_id_or_default uid = (case uid of None \<Rightarrow> ''web-user'' | Some u \<Rightarrow> u)"

subsection \<open>\<^verbatim>\<open>process_message\<close>\<close>

text \<open>The \<^verbatim>\<open>try\<close> block: a fresh event loop runs the agent's coroutine and is closed.\<close>

definition process_message_try ::
  "'a collaborator \<Rightarrow> string \<Rightarrow> string \<Rightarrow> 'a bridge_state \<Rightarrow> (exn + result) \<times> 'a bridge_state" where
  "process_message_try env message user_id st =
     (case getattr (agent st) ''process_message'' of
        Inl e \<Rightarrow> (Inl e, st)
      | Inr a \<Rightarrow>
          (try_bind (agent_process_message env a message user_id)
             (\<lambda>response. Inr [(''response'', JString response), (''success'', JBool True)]),
           logged (ProcessMessage message user_id) st))"

text \<open>
  A handler returns a Result (\<open>Inr\<close>) or ends with a fault that no clause of it
  handles (\<open>Inl\<close>).
\<close>

definition process_message ::
  "'a collaborator \<Rightarrow> string \<Rightarrow> string option \<Rightarrow> 'a bridge_state \<Rightarrow>
   (exn + result) \<times> 'a bridge_state" where
  "process_message env message uid st =
     (let user_id = user_id_or_default uid
      in case (if agent st = None then initialize_agent env st else (Inr True, st)) of
           (Inl e, st1) \<Rightarrow> (Inl e, st1)
         | (Inr ready, st1) \<Rightarrow>
             if \<not> ready then (Inr agent_unavailable, st1)
             else
               (case process_message_try env message user_id st1 of
                  (tried, st2) \<Rightarrow>
                    (except_Exception tried
                       (\<lambda>e. [(''error'', JString (str_exn e)),
                             (''response'',
                              JString (''I encountered an error while processing your message: '' @
                                       str_exn e))]),
                     st2)))"

subsection \<open>\<^verbatim>\<open>clear_conversation\<close>\<close>

definition clear_conversation_try ::
  "'a collaborator \<Rightarrow> string \<Rightarrow> 'a bridge_state \<Rightarrow> (exn + result) \<times> 'a bridge_state" where
  "clear_conversation_try env user_id st =
     (case getattr (agent st) ''clear_conversation'' of
        Inl e \<Rightarrow> (Inl e, st)
      | Inr a \<Rightarrow>
          (try_bind (agent_clear_conversation env a user_id)
             (\<lambda>response. Inr [(''response'', JString response), (''success'', JBool True)]),
           logged (ClearConversation user_id) st))"

definition clear_conversation ::
  "'a collaborator \<Rightarrow> string option \<Rightarrow> 'a bridge_state \<Rightarrow> (exn + result) \<times> 'a bridge_state" where
  "clear_conversation env uid st =
     (let user_id = user_id_or_default uid
      in case (if agent st = None then initialize_agent env st else (Inr True, st)) of
           (Inl e, st1) \<Rightarrow> (Inl e, st1)
         | (Inr ready, st1) \<Rightarrow>
             if \<not> ready then
               (Inr [(''error'', JString ''Failed to initialize intelligent agent''),
                     (''success'', JBool False)], st1)
             else
               (case clear_conversation_try env user_id st1 of
                  (tried, st2) \<Rightarrow>
                    (except_Exception tried
                       (\<lambda>e. [(''error'', JString (str_exn e)), (''success'', JBool False)]),
                     st2)))"

subsection \<open>\<^verbatim>\<open>get_help\<close>\<close>

text \<open>This handler reads the global without initialising it.\<close>

definition get_help_try ::
  "'a collaborator \<Rightarrow> 'a bridge_state \<Rightarrow> (exn + result) \<times> 'a bridge_state" where
  "get_help_try env st =
     (case getattr (agent st) ''get_help_message'' of
        Inl e \<Rightarrow> (Inl e, st)
      | Inr a \<Rightarrow>
          (try_bind (agent_get_help_message env a)
             (\<lambda>response. Inr [(''response'', JString response), (''success'', JBool True)]),
           logged GetHelpMessage st))"

definition get_help ::
  "'a collaborator \<Rightarrow> 'a bridge_state \<Rightarrow> (exn + result) \<times> 'a bridge_state" where
  "get_help env st =
     (case get_help_try env st of
        (tried, st1) \<Rightarrow>
          (except_Exception tried
             (\<lambda>e. [(''error'', JString (str_exn e)),
                   (''response'',
                    JString (''I encountered an error while getting help: '' @ str_exn e))]),
           st1))"

subsection \<open>\<^verbatim>\<open>analyze_conversation\<close>\<close>

text \<open>The symbols of the report, in UTF-8.\<close>

definition bullet :: string where
  "bullet = [CHR 0xE2, CHR 0x80, CHR 0xA2]"

definition emoji_smile :: string where
  "emoji_smile = [CHR 0xF0, CHR 0x9F, CHR 0x98, CHR 0x8A]"

definition emoji_brain :: string where
  "emoji_brain = [CHR 0xF0, CHR 0x9F, CHR 0xA7, CHR 0xA0]"

definition emoji_bar_chart :: string where
  "emoji_bar_chart = [CHR 0xF0, CHR 0x9F, CHR 0x93, CHR 0x8A]"

definition emoji_chart_up :: string where
  "emoji_chart_up = [CHR 0xF0, CHR 0x9F, CHR 0x93, CHR 0x88]"

definition emoji_target :: string where
  "emoji_target = [CHR 0xF0, CHR 0x9F, CHR 0x8E, CHR 0xAF]"

definition emoji_bulb :: string where
  "emoji_bulb = [CHR 0xF0, CHR 0x9F, CHR 0x92, CHR 0xA1]"

definition emoji_arrows :: string where
  "emoji_arrows = [CHR 0xF0, CHR 0x9F, CHR 0x94, CHR 0x84]"

definition emoji_person :: string where
  "emoji_person = [CHR 0xF0, CHR 0x9F, CHR 0x91, CHR 0xA4]"

definition emoji_robot :: string where
  "emoji_robot = [CHR 0xF0, CHR 0x9F, CHR 0xA4, CHR 0x96]"

definition emoji_thought :: string where
  "emoji_thought = [CHR 0xF0, CHR 0x9F, CHR 0x92, CHR 0xAD]"

definition emoji_rocket :: string where
  "emoji_rocket = [CHR 0xF0, CHR 0x9F, CHR 0x9A, CHR 0x80]"

definition first_contact :: string where
  "first_contact =
     ''We haven't had any previous conversations in this session. This is our first interaction! '' @
     emoji_smile"

text \<open>The list literal that starts \<^verbatim>\<open>response_parts\<close>; its f-strings read the keys in this order.\<close>

definition report_head :: "pydict \<Rightarrow> string list \<Rightarrow> pydict \<Rightarrow> exn + string list" where
  "report_head smry tps snt =
     try_bind (getitem smry K_total_messages) (\<lambda>total_messages.
     try_bind (getitem smry K_user_messages) (\<lambda>user_messages.
     try_bind (getitem smry K_assistant_messages) (\<lambda>assistant_messages.
     try_bind (getitem smry K_conversation_duration_hours) (\<lambda>hours.
     try_bind (getitem smry K_conversation_start) (\<lambda>conversation_start.
     try_bind (getitem smry K_last_activity) (\<lambda>last_activity.
     try_bind (getitem snt K_overall_sentiment) (\<lambda>overall_sentiment.
     try_bind (getitem snt K_engagement_level) (\<lambda>engagement_level.
     try_bind (getitem snt K_question_count) (\<lambda>question_count.
       Inr [emoji_brain @ '' **Conversation Analysis Report** '' @ emoji_bar_chart,
            [],
            emoji_chart_up @ '' **Conversation Statistics:**'',
            bullet @ '' **Total Messages:** '' @ total_messages,
            bullet @ '' **Your Messages:** '' @ user_messages,
            bullet @ '' **My Responses:** '' @ assistant_messages,
            bullet @ '' **Duration:** '' @ hours @ '' hours'',
            bullet @ '' **Started:** '' @ conversation_start,
            bullet @ '' **Last Activity:** '' @ last_activity,
            [],
            emoji_target @ '' **Topics Discussed:**'',
            bullet @ '' '' @ join '', '' tps,
            [],
            emoji_smile @ '' **Sentiment Analysis:**'',
            bullet @ '' **Overall Tone:** '' @ title overall_sentiment,
            bullet @ '' **Engagement Level:** '' @ title engagement_level,
            bullet @ '' **Questions Asked:** '' @ question_count,
            [],
            emoji_bulb @ '' **Key Insights:**''])))))))))"

text \<open>\<^verbatim>\<open>for insight in insights: response_parts.append(...)\<close>\<close>

fun append_insights :: "string list \<Rightarrow> string list \<Rightarrow> string list" where
  "append_insights parts [] = parts"
| "append_insights parts (insight # rest) =
     append_insights (parts @ [bullet @ '' '' @ insight]) rest"

text \<open>The line of one message; \<^verbatim>\<open>msg["role"]\<close> is read first, for the marker.\<close>

definition message_line :: "pydict \<Rightarrow> exn + string" where
  "message_line msg =
     try_bind (getitem msg K_role) (\<lambda>role.
     try_bind (getitem msg K_timestamp) (\<lambda>timestamp.
     try_bind (getitem msg K_content) (\<lambda>content.
       Inr ((if role = ''user'' then emoji_person else emoji_robot) @
            '' **'' @ title role @ ''** ('' @ timestamp @ ''): '' @ content))))"

text \<open>\<^verbatim>\<open>for msg in recent_messages: response_parts.append(...)\<close>\<close>

fun append_messages :: "string list \<Rightarrow> pydict list \<Rightarrow> exn + string list" where
  "append_messages parts [] = Inr parts"
| "append_messages parts (msg # rest) =
     (case message_line msg of
        Inl e \<Rightarrow> Inl e
      | Inr line \<Rightarrow> append_messages (parts @ [line]) rest)"

text \<open>The list literal of the last \<^verbatim>\<open>extend\<close>.\<close>

definition report_tail :: "pydict \<Rightarrow> string list \<Rightarrow> pydict \<Rightarrow> exn + string list" where
  "report_tail smry tps snt =
     try_bind (getitem snt K_engagement_level) (\<lambda>engagement_level.
     try_bind (getitem snt K_overall_sentiment) (\<lambda>overall_sentiment.
     try_bind (getitem smry K_conversation_duration_hours) (\<lambda>hours.
       Inr [[],
            emoji_thought @ '' **Analysis Summary:**'',
            ''This conversation shows '' @ engagement_level @ '' engagement with a '' @
              overall_sentiment @ '' tone. '',
            ''We've covered '' @ str_nat (length tps) @ '' main topic'' @
              (if length tps \<noteq> 1 then ''s'' else []) @ '' over '' @ hours @ '' hours. '',
            ''I'm here to continue helping you with any questions or tasks! '' @ emoji_rocket])))"

text \<open>The \<^verbatim>\<open>try\<close> block from the analysis on, up to the \<^verbatim>\<open>return\<close>.\<close>

definition format_analysis :: "analysis \<Rightarrow> exn + result" where
  "format_analysis an =
     try_bind (analysis_item (has_conversation an) K_has_conversation) (\<lambda>has.
       if \<not> has then Inr [(''response'', JString first_contact), (''success'', JBool True)]
       else
         try_bind (analysis_item (summary an) K_summary) (\<lambda>smry.
         try_bind (analysis_item (topics an) K_topics) (\<lambda>tps.
         try_bind (analysis_item (sentiment an) K_sentiment) (\<lambda>snt.
         try_bind (analysis_item (insights an) K_insights) (\<lambda>ins.
         try_bind (analysis_item (recent_messages an) K_recent_messages) (\<lambda>msgs.
         try_bind (report_head smry tps snt) (\<lambda>parts0.
         try_bind (append_messages
                     (append_insights parts0 ins @ [[], emoji_arrows @ '' **Recent Messages:**''])
                     msgs) (\<lambda>parts1.
         try_bind (report_tail smry tps snt) (\<lambda>parts2.
           Inr [(''response'', JString (join [CHR 0x0A] (parts1 @ parts2))),
                (''success'', JBool True)])))))))))"

definition analyze_conversation_try ::
  "'a collaborator \<Rightarrow> string \<Rightarrow> 'a bridge_state \<Rightarrow> (exn + result) \<times> 'a bridge_state" where
  "analyze_conversation_try env user_id st =
     (case getattr (agent st) ''conversation_memory'' of
        Inl e \<Rightarrow> (Inl e, st)
      | Inr a \<Rightarrow>
          (try_bind (memory_analyze_conversation env a user_id) format_analysis,
           logged (AnalyzeConversation user_id) st))"

definition analyze_conversation ::
  "'a collaborator \<Rightarrow> string option \<Rightarrow> 'a bridge_state \<Rightarrow> (exn + result) \<times> 'a bridge_state" where
  "analyze_conversation env uid st =
     (let user_id = user_id_or_default uid
      in case (if agent st = None then initialize_agent env st else (Inr True, st)) of
           (Inl e, st1) \<Rightarrow> (Inl e, st1)
         | (Inr ready, st1) \<Rightarrow>
             if \<not> ready then (Inr agent_unavailable, st1)
             else
               (case analyze_conversation_try env user_id st1 of
                  (tried, st2) \<Rightarrow>
                    (except_Exception tried
                       (\<lambda>e. [(''error'', JString (str_exn e)),
                             (''response'',
                              JString (''I encountered an error while analyzing our conversation: '' @
                                       str_exn e))]),
                     st2)))"

subsection \<open>\<^verbatim>\<open>test_tools\<close>\<close>

definition test_queries :: "(string \<times> string) list" where
  "test_queries =
     [(''dictionary'', ''test''),
      (''weather'', ''current weather''),
      (''web_search'', ''latest news''),
      (''gmail'', ''email functionality''),
      (''sheets'', ''spreadsheet access'')]"

text \<open>
  The inner \<^verbatim>\<open>try\<close> block: it builds the entry of one tool, calls nothing and raises
  nothing, so the \<^verbatim>\<open>except\<close> clause after it, kept in \<open>test_loop\<close>, never runs.
\<close>

definition probe :: "string \<Rightarrow> string \<Rightarrow> exn + result" where
  "probe tool_name query =
     Inr [(''status'', JString ''success''),
          (''query'', JString query),
          (''response'', JString (title tool_name @ '' tool is available and working''))]"

text \<open>The loop over \<^verbatim>\<open>test_queries.items()\<close>; \<open>AList.update\<close> is the assignment \<^verbatim>\<open>results[k] = v\<close>.\<close>

fun test_loop :: "(string \<times> string) list \<Rightarrow> result \<Rightarrow> result" where
  "test_loop [] results = results"
| "test_loop ((tool_name, query) # rest) results =
     test_loop rest
       (AList.update tool_name
          (JObject
             (case probe tool_name query of
                Inr entry \<Rightarrow> entry
              | Inl e \<Rightarrow>
                  [(''status'', JString ''error''),
                   (''query'', JString query),
                   (''error'', JString (str_exn e))]))
          results)"

text \<open>
  This handler does not initialise the global either. Nothing in its outer \<^verbatim>\<open>try\<close>
  block can raise, so the outer \<^verbatim>\<open>except\<close> clause has no branch here.
\<close>

definition test_tools :: "'a bridge_state \<Rightarrow> result \<times> 'a bridge_state" where
  "test_tools st =
     (if agent st = None then
        ([(''error'', JString ''Agent not initialized''), (''success'', JBool False)], st)
      else
        ([(''test_results'', JObject (test_loop test_queries [])), (''success'', JBool True)], st))"

subsection \<open>\<^verbatim>\<open>main\<close>\<close>

text \<open>
  What a run of the process leaves: the documents printed on the primary stream
  (\<^verbatim>\<open>stdout\<close>), the documents printed on the secondary stream (\<^verbatim>\<open>stderr\<close>), the exit
  code, the fault the interpreter reports when an uncaught one ends the process, and
  the last state.
\<close>

record 'a outcome =
  primary :: "result list"
  secondary :: "result list"
  exit_code :: nat
  traceback :: "exn option"
  final_state :: "'a bridge_state"

text \<open>The module sets \<^verbatim>\<open>agent = None\<close> before \<^verbatim>\<open>main\<close> runs.\<close>

definition start :: "'a bridge_state" where
  "start = \<lparr>agent = None, calls = []\<rparr>"

text \<open>
  The end of \<^verbatim>\<open>main\<close>, from what its \<^verbatim>\<open>try\<close> block computed. A Result is printed by
  \<^verbatim>\<open>print(json.dumps(result))\<close> and the process ends normally. An instance of
  \<^verbatim>\<open>Exception\<close> is handled by the \<^verbatim>\<open>except\<close> clause: an error document on the
  secondary stream, then \<^verbatim>\<open>sys.exit(1)\<close>. Any other fault passes the clause, and the
  interpreter ends the process with a traceback and exit code 1.
\<close>

definition finish :: "(exn + result) \<times> 'a bridge_state \<Rightarrow> 'a outcome" where
  "finish p =
     (case fst p of
        Inr result \<Rightarrow>
          \<lparr>primary = [result], secondary = [], exit_code = 0, traceback = None,
           final_state = snd p\<rparr>
      | Inl e \<Rightarrow>
          if is_exception e then
            \<lparr>primary = [], secondary = [[(''error'', JString (str_exn e))]], exit_code = 1,
             traceback = None, final_state = snd p\<rparr>
          else
            \<lparr>primary = [], secondary = [], exit_code = 1, traceback = Some e,
             final_state = snd p\<rparr>)"

text \<open>A handler that cannot raise, seen as one that can.\<close>

definition returned :: "result \<times> 'a bridge_state \<Rightarrow> (exn + result) \<times> 'a bridge_state" where
  "returned p = (Inr (fst p), snd p)"

text \<open>
  \<open>argv\<close> is \<^verbatim>\<open>sys.argv\<close>, the script's name first. \<^verbatim>\<open>main\<close> runs once the imports
  at the top of the module have succeeded; when they fail the process has ended with
  exit code 1 before any command is read.
\<close>

definition main :: "'a collaborator \<Rightarrow> string list \<Rightarrow> 'a outcome" where
  "main env argv =
     (if length argv < 2 then
        \<lparr>primary = [],
         secondary = [[(''error'', JString ''No command provided'')]],
         exit_code = 1,
         traceback = None,
         final_state = start\<rparr>
      else
        let command = argv ! 1;
            args = (if length argv > 2 then drop 2 argv else [])
        in finish
          (if command = ''process_message'' then
             (if length args < 1 then
                (Inr [(''error'', JString ''Message required for process_message command'')], start)
              else
                process_message env (args ! 0)
                  (Some (if length args > 1 then args ! 1 else ''web-user'')) start)
           else if command = ''clear_conversation'' then
             clear_conversation env (Some (if length args > 0 then args ! 0 else ''web-user'')) start
           else if command = ''get_help'' then
             get_help env start
           else if command = ''test_tools'' then
             returned (test_tools start)
           else if command = ''analyze_conversation'' then
             analyze_conversation env (Some (if length args > 0 then args ! 0 else ''web-user'')) start
           else
             (Inr [(''error'', JString (''Unknown command: '' @ command))], start)))"

subsection \<open>The command set\<close>

text \<open>The command names \<^verbatim>\<open>main\<close> dispatches on, in the order of its tests.\<close>

definition supported_commands :: "string list" where
  "supported_commands =
     [''process_message'', ''clear_conversation'', ''get_help'', ''test_tools'',
      ''analyze_conversation'']"

text \<open>The number of positional arguments \<^verbatim>\<open>main\<close> reads for a command.\<close>

definition consumed :: "string \<Rightarrow> nat" where
  "consumed command =
     (if command = ''process_message'' then 2
      else if command = ''clear_conversation'' \<or> command = ''analyze_conversation'' then 1
      else 0)"

section \<open>The Conversation Analysis and its report, as the specification describes them\<close>

text \<open>
  The specification's data model gives a Conversation Analysis fixed fields. The records
  below hold them; \<open>analysis_of\<close> says that a dict returned by the collaborator
  carries these fields under the keys the bridge reads.
\<close>

record message =
  role :: string
  timestamp :: string
  content :: string

record conversation_summary =
  total_messages :: string
  user_messages :: string
  assistant_messages :: string
  conversation_duration_hours :: string
  conversation_start :: string
  last_activity :: string

record conversation_sentiment =
  overall_sentiment :: string
  engagement_level :: string
  question_count :: string







definition statistics_heading :: string where
  "statistics_heading = emoji_chart_up @ '' **Conversation Statistics:**''"

definition topics_heading :: string where
  "topics_heading = emoji_target @ '' **Topics Discussed:**''"

definition sentiment_heading :: string where
  "sentiment_heading = emoji_smile @ '' **Sentiment Analysis:**''"
















section \<open>Sample collaborators\<close>

text \<open>A collaborator whose constructor raises.\<close>

definition failing_env :: "unit collaborator" where
  "failing_env =
     \<lparr>IntelligentAgent = Inl (CollaboratorError ''no API key''),
      agent_process_message = (\<lambda>a m u. Inr (''You said: '' @ m)),
      agent_clear_conversation = (\<lambda>a u. Inr ''Conversation cleared''),
      agent_get_help_message = (\<lambda>a. Inr ''Ask me anything''),
      memory_analyze_conversation =
        (\<lambda>a u. Inr \<lparr>has_conversation = Some False, summary = None, topics = None,
                     sentiment = None, insights = None, recent_messages = None\<rparr>)\<rparr>"

text \<open>A collaborator that works, for a user without history.\<close>

definition working_env :: "unit collaborator" where
  "working_env = failing_env\<lparr>IntelligentAgent := Inr ()\<rparr>"






section \<open>How each handler behaves, by the state of the handle\<close>


lemma process_message_ready:
  "agent st = Some a \<Longrightarrow>
   process_message env message uid st =
     (case agent_process_message env a message (user_id_or_default uid) of
        Inr response \<Rightarrow> Inr [(''response'', JString response), (''success'', JBool True)]
      | Inl e \<Rightarrow>
          if is_exception e then
            Inr [(''error'', JString (str_exn e)),
                 (''response'',
                  JString (''I encountered an error while processing your message: '' @ str_exn e))]
          else Inl e,
      logged (ProcessMessage message (user_id_or_default uid)) st)"
  by (simp add: process_message_def process_message_try_def getattr_def try_bind_def
      except_Exception_def split: sum.splits)

lemma process_message_constructs:
  "agent st = None \<Longrightarrow> IntelligentAgent env = Inr a \<Longrightarrow>
   process_message env message uid st =
     process_message env message uid (logged Construct (st\<lparr>agent := Some a\<rparr>))"
  by (simp add: process_message_def initialize_agent_def logged_def)


lemma clear_conversation_ready:
  "agent st = Some a \<Longrightarrow>
   clear_conversation env uid st =
     (case agent_clear_conversation env a (user_id_or_default uid) of
        Inr response \<Rightarrow> Inr [(''response'', JString response), (''success'', JBool True)]
      | Inl e \<Rightarrow>
          if is_exception e then
            Inr [(''error'', JString (str_exn e)), (''success'', JBool False)]
          else Inl e,
      logged (ClearConversation (user_id_or_default uid)) st)"
  by (simp add: clear_conversation_def clear_conversation_try_def getattr_def try_bind_def
      except_Exception_def split: sum.splits)

lemma clear_conversation_constructs:
  "agent st = None \<Longrightarrow> IntelligentAgent env = Inr a \<Longrightarrow>
   clear_conversation env uid st =
     clear_conversation env uid (logged Construct (st\<lparr>agent := Some a\<rparr>))"
  by (simp add: clear_conversation_def initialize_agent_def logged_def)


lemma analyze_conversation_ready:
  "agent st = Some a \<Longrightarrow>
   analyze_conversation env uid st =
     (except_Exception
        (try_bind (memory_analyze_conversation env a (user_id_or_default uid)) format_analysis)
        (\<lambda>e. [(''error'', JString (str_exn e)),
              (''response'',
               JString (''I encountered an error while analyzing our conversation: '' @
                        str_exn e))]),
      logged (AnalyzeConversation (user_id_or_default uid)) st)"
  by (simp add: analyze_conversation_def analyze_conversation_try_def getattr_def Let_def)

lemma analyze_conversation_constructs:
  "agent st = None \<Longrightarrow> IntelligentAgent env = Inr a \<Longrightarrow>
   analyze_conversation env uid st =
     analyze_conversation env uid (logged Construct (st\<lparr>agent := Some a\<rparr>))"
  by (simp add: analyze_conversation_def initialize_agent_def logged_def)


lemma get_help_ready:
  "agent st = Some a \<Longrightarrow>
   get_help env st =
     (case agent_get_help_message env a of
        Inr response \<Rightarrow> Inr [(''response'', JString response), (''success'', JBool True)]
      | Inl e \<Rightarrow>
          if is_exception e then
            Inr [(''error'', JString (str_exn e)),
                 (''response'',
                  JString (''I encountered an error while getting help: '' @ str_exn e))]
          else Inl e,
      logged GetHelpMessage st)"
  by (simp add: get_help_def get_help_try_def getattr_def try_bind_def except_Exception_def
      split: sum.splits)

lemma get_help_uninitialized:
  "agent st = None \<Longrightarrow>
   get_help env st =
     (Inr [(''error'', JString (str_exn (AttributeError
          ([CHR 0x27] @ ''NoneType'' @ [CHR 0x27] @ '' object has no attribute '' @
           [CHR 0x27] @ ''get_help_message'' @ [CHR 0x27])))),
       (''response'', JString (''I encountered an error while getting help: '' @
          str_exn (AttributeError
          ([CHR 0x27] @ ''NoneType'' @ [CHR 0x27] @ '' object has no attribute '' @
           [CHR 0x27] @ ''get_help_message'' @ [CHR 0x27]))))],
      st)"
  by (simp add: get_help_def get_help_try_def getattr_def except_Exception_def)

lemma format_analysis_shape:
  "format_analysis an = Inr r \<Longrightarrow>
   \<exists>reply. r = [(''response'', JString reply), (''success'', JBool True)]"
  by (auto simp add: format_analysis_def try_bind_def split: sum.splits if_splits)

lemma main_dispatch:
  "main env (prog # command # args) =
     finish
       (if command = ''process_message'' then
          (case args of
             [] \<Rightarrow>
               (Inr [(''error'', JString ''Message required for process_message command'')], start)
           | [message] \<Rightarrow> process_message env message (Some ''web-user'') start
           | message # user_id # extra \<Rightarrow> process_message env message (Some user_id) start)
        else if command = ''clear_conversation'' then
          (case args of
             [] \<Rightarrow> clear_conversation env (Some ''web-user'') start
           | user_id # extra \<Rightarrow> clear_conversation env (Some user_id) start)
        else if command = ''get_help'' then get_help env start
        else if command = ''test_tools'' then returned (test_tools start)
        else if command = ''analyze_conversation'' then
          (case args of
             [] \<Rightarrow> analyze_conversation env (Some ''web-user'') start
           | user_id # extra \<Rightarrow> analyze_conversation env (Some user_id) start)
        else (Inr [(''error'', JString (''Unknown command: '' @ command))], start))"
  by (simp add: main_def Let_def split: list.splits)

lemma primary_finish: "r \<in> set (primary (finish p)) \<Longrightarrow> fst p = Inr r"
  by (simp add: finish_def split: sum.splits if_splits)

section \<open>Dispatch\<close>

text \<open>
  Claim C8. A command name outside the supported set makes \<^verbatim>\<open>main\<close> print the Result
  \<^verbatim>\<open>{"error": "Unknown command: <name>"}\<close> on the primary stream and nothing on the
  secondary stream, call no collaborator and end with exit code 0 and no traceback,
  whatever arguments follow the name.
\<close>

theorem unknown_command_result:
  assumes "command \<notin> set supported_commands"
  shows "main env (prog # command # args) =
           \<lparr>primary = [[(''error'', JString (''Unknown command: '' @ command))]],
            secondary = [], exit_code = 0, traceback = None, final_state = start\<rparr>"
  using assms by (simp add: main_def supported_commands_def finish_def)

theorem unknown_command_result_witness:
  "''foo_bar'' \<notin> set supported_commands \<and>
   main failing_env [''python_bridge.py'', ''foo_bar''] =
     \<lparr>primary = [[(''error'', JString ''Unknown command: foo_bar'')]],
      secondary = [], exit_code = 0, traceback = None, final_state = start\<rparr>"
proof -
  have h: "''foo_bar'' \<notin> set supported_commands"
    by (simp add: supported_commands_def)
  show ?thesis
    using h unknown_command_result [OF h, of failing_env "''python_bridge.py''" "[]"] by simp
qed

text \<open>
  Claim C5. Leaving the user identifier out is the same as passing \<^verbatim>\<open>"web-user"\<close>:
  for the default parameter of \<^verbatim>\<open>process_message\<close>, \<^verbatim>\<open>clear_conversation\<close> and
  \<^verbatim>\<open>analyze_conversation\<close>, and for the argument \<^verbatim>\<open>main\<close> fills in on the command
  line. The two runs agree on the Result, on the calls made to the collaborator and on
  the final state.
\<close>

theorem omitted_user_id_is_web_user:
  "process_message env message None st = process_message env message (Some ''web-user'') st \<and>
   clear_conversation env None st = clear_conversation env (Some ''web-user'') st \<and>
   analyze_conversation env None st = analyze_conversation env (Some ''web-user'') st \<and>
   main env [prog, ''process_message'', message] =
     main env [prog, ''process_message'', message, ''web-user''] \<and>
   main env [prog, ''clear_conversation''] = main env [prog, ''clear_conversation'', ''web-user''] \<and>
   main env [prog, ''analyze_conversation''] =
     main env [prog, ''analyze_conversation'', ''web-user'']"
  by (simp add: process_message_def clear_conversation_def analyze_conversation_def
      user_id_or_default_def main_def Let_def)

text \<open>
  Claim C10. Arguments beyond those a command reads are ignored: a run with the full
  argument list and a run with only the first \<open>consumed command\<close> arguments (two for
  \<^verbatim>\<open>process_message\<close>, one for \<^verbatim>\<open>clear_conversation\<close> and \<^verbatim>\<open>analyze_conversation\<close>,
  none for \<^verbatim>\<open>get_help\<close> and \<^verbatim>\<open>test_tools\<close>) have the same outcome.
\<close>

theorem extra_arguments_ignored:
  "main env (prog # command # args) = main env (prog # command # take (consumed command) args)"
proof (cases args)
  case Nil
  then show ?thesis by simp
next
  case (Cons x xs)
  then show ?thesis
    by (cases xs) (simp_all add: main_def consumed_def Let_def)
qed

section \<open>The tool probe\<close>

text \<open>
  Claim C9. With an initialised handle, \<^verbatim>\<open>test_tools\<close> returns \<^verbatim>\<open>success: true\<close> and
  a \<^verbatim>\<open>test_results\<close> mapping with exactly the keys dictionary, weather, web_search,
  gmail and sheets, each entry holding status \<^verbatim>\<open>"success"\<close>, its query and a response
  text. The handler takes no collaborator: no tool is consulted, and the state is
  unchanged.
\<close>

theorem test_tools_reports_success:
  "test_tools (st\<lparr>agent := Some a\<rparr>) =
     ([(''test_results'',
        JObject
          [(''dictionary'',
            JObject [(''status'', JString ''success''), (''query'', JString ''test''),
                     (''response'', JString ''Dictionary tool is available and working'')]),
           (''weather'',
            JObject [(''status'', JString ''success''), (''query'', JString ''current weather''),
                     (''response'', JString ''Weather tool is available and working'')]),
           (''web_search'',
            JObject [(''status'', JString ''success''), (''query'', JString ''latest news''),
                     (''response'', JString ''Web_Search tool is available and working'')]),
           (''gmail'',
            JObject [(''status'', JString ''success''), (''query'', JString ''email functionality''),
                     (''response'', JString ''Gmail tool is available and working'')]),
           (''sheets'',
            JObject [(''status'', JString ''success''), (''query'', JString ''spreadsheet access''),
                     (''response'', JString ''Sheets tool is available and working'')])]),
       (''success'', JBool True)],
      st\<lparr>agent := Some a\<rparr>)"
  by (simp add: test_tools_def test_queries_def probe_def title_def to_upper_def to_lower_def
      is_cased_def lower_letters_def upper_letters_def)

section \<open>Faults of the agent\<close>




section \<open>Failure of the constructor\<close>




section \<open>The conversation report\<close>







lemma format_analysis_first_contact:
  "has_conversation an = Some False \<Longrightarrow>
   format_analysis an = Inr [(''response'', JString first_contact), (''success'', JBool True)]"
  by (simp add: format_analysis_def analysis_item_def try_bind_def)

lemma analyze_conversation_formats:
  assumes "agent st = Some a \<or> agent st = None \<and> IntelligentAgent env = Inr a"
    and "memory_analyze_conversation env a (user_id_or_default uid) = Inr an"
    and "format_analysis an = Inr r"
  shows "fst (analyze_conversation env uid st) = Inr r"
  using assms
  by (auto simp add: analyze_conversation_constructs analyze_conversation_ready try_bind_def
      except_Exception_def logged_def)

lemma heading_not_in_first_contact:
  assumes "CHR ''*'' \<in> set heading"
  shows "\<not> sublist heading first_contact"
proof
  assume "sublist heading first_contact"
  then have "set heading \<subseteq> set first_contact"
    by (rule set_mono_sublist)
  with assms have "CHR ''*'' \<in> set first_contact"
    by blast
  then show False
    by (simp add: first_contact_def emoji_smile_def)
qed

text \<open>
  Claim C6. When the analysis says \<^verbatim>\<open>has_conversation\<close> is false,
  \<^verbatim>\<open>analyze_conversation\<close> returns \<^verbatim>\<open>success: true\<close> with the fixed first-contact
  greeting as response. No other key of the analysis is read: the analysis is
  arbitrary otherwise, and the Result is the one obtained when every other key is
  absent. The greeting contains none of the headings of the statistics, topics and
  sentiment sections.
\<close>

theorem first_contact_greeting:
  assumes "has_conversation an = Some False"
    and "agent st = Some a \<or> agent st = None \<and> IntelligentAgent env = Inr a"
    and "memory_analyze_conversation env a (user_id_or_default uid) = Inr an"
  shows "fst (analyze_conversation env uid st) =
           Inr [(''response'',
             JString (''We haven't had any previous conversations in this session. This is our first interaction! '' @
                      [CHR 0xF0, CHR 0x9F, CHR 0x98, CHR 0x8A])),
            (''success'', JBool True)] \<and>
         format_analysis an =
           format_analysis
             \<lparr>has_conversation = Some False, summary = None, topics = None, sentiment = None,
              insights = None, recent_messages = None\<rparr> \<and>
         \<not> sublist statistics_heading
             (''We haven't had any previous conversations in this session. This is our first interaction! '' @
              [CHR 0xF0, CHR 0x9F, CHR 0x98, CHR 0x8A]) \<and>
         \<not> sublist topics_heading
             (''We haven't had any previous conversations in this session. This is our first interaction! '' @
              [CHR 0xF0, CHR 0x9F, CHR 0x98, CHR 0x8A]) \<and>
         \<not> sublist sentiment_heading
             (''We haven't had any previous conversations in this session. This is our first interaction! '' @
              [CHR 0xF0, CHR 0x9F, CHR 0x98, CHR 0x8A])"
proof -
  have greeting: "first_contact =
      ''We haven't had any previous conversations in this session. This is our first interaction! '' @
      [CHR 0xF0, CHR 0x9F, CHR 0x98, CHR 0x8A]"
    by (simp add: first_contact_def emoji_smile_def)
  have "fst (analyze_conversation env uid st) =
      Inr [(''response'', JString first_contact), (''success'', JBool True)]"
    by (rule analyze_conversation_formats [OF assms(2,3) format_analysis_first_contact [OF assms(1)]])
  moreover have "format_analysis an =
      format_analysis
        \<lparr>has_conversation = Some False, summary = None, topics = None, sentiment = None,
         insights = None, recent_messages = None\<rparr>"
    by (simp add: format_analysis_first_contact [OF assms(1)] format_analysis_first_contact)
  moreover have "\<not> sublist statistics_heading first_contact"
    by (rule heading_not_in_first_contact) (simp add: statistics_heading_def)
  moreover have "\<not> sublist topics_heading first_contact"
    by (rule heading_not_in_first_contact) (simp add: topics_heading_def)
  moreover have "\<not> sublist sentiment_heading first_contact"
    by (rule heading_not_in_first_contact) (simp add: sentiment_heading_def)
  ultimately show ?thesis
    unfolding greeting by blast
qed

theorem first_contact_greeting_witness:
  "has_conversation
     \<lparr>has_conversation = Some False, summary = None, topics = None, sentiment = None,
      insights = None, recent_messages = None\<rparr> = Some False \<and>
   agent (start :: unit bridge_state) = None \<and> IntelligentAgent working_env = Inr () \<and>
   memory_analyze_conversation working_env () ''web-user'' =
     Inr \<lparr>has_conversation = Some False, summary = None, topics = None, sentiment = None,
          insights = None, recent_messages = None\<rparr> \<and>
   fst (analyze_conversation working_env None start) =
     Inr [(''response'',
       JString (''We haven't had any previous conversations in this session. This is our first interaction! '' @
                [CHR 0xF0, CHR 0x9F, CHR 0x98, CHR 0x8A])),
      (''success'', JBool True)]"
proof -
  have h1: "has_conversation
      \<lparr>has_conversation = Some False, summary = None, topics = None, sentiment = None,
       insights = None, recent_messages = None\<rparr> = Some False"
    by simp
  have h2: "agent (start :: unit bridge_state) = Some () \<or>
      agent (start :: unit bridge_state) = None \<and> IntelligentAgent working_env = Inr ()"
    by (simp add: start_def working_env_def failing_env_def)
  have h3: "memory_analyze_conversation working_env () (user_id_or_default None) =
      Inr \<lparr>has_conversation = Some False, summary = None, topics = None, sentiment = None,
           insights = None, recent_messages = None\<rparr>"
    by (simp add: working_env_def failing_env_def)
  from first_contact_greeting [OF h1 h2 h3]
  have "fst (analyze_conversation working_env None start) =
      Inr [(''response'',
        JString (''We haven't had any previous conversations in this session. This is our first interaction! '' @
                 [CHR 0xF0, CHR 0x9F, CHR 0x98, CHR 0x8A])),
       (''success'', JBool True)]"
    by (rule conjunct1)
  with h1 h3 show ?thesis
    by (simp add: start_def working_env_def failing_env_def user_id_or_default_def)
qed



section \<open>Lazy initialisation\<close>




section \<open>The \<^verbatim>\<open>success\<close> field\<close>

text \<open>The two shapes of Result each handler can return.\<close>

lemma process_message_shape:
  assumes "fst (process_message env message uid st) = Inr r"
  shows "(\<exists>reply. r = [(''response'', JString reply), (''success'', JBool True)]) \<or>
         (\<exists>err reply. r = [(''error'', JString err), (''response'', JString reply)])"
proof (cases "agent st")
  case (Some a)
  with assms show ?thesis
    by (auto simp add: process_message_ready split: sum.splits if_splits)
next
  case None
  show ?thesis
  proof (cases "IntelligentAgent env")
    case (Inl e)
    with None assms show ?thesis
      by (auto simp add: process_message_def initialize_agent_def agent_unavailable_def
          split: if_splits)
  next
    case (Inr a)
    with None assms show ?thesis
      by (auto simp add: process_message_constructs process_message_ready logged_def
          split: sum.splits if_splits)
  qed
qed

lemma clear_conversation_shape:
  assumes "fst (clear_conversation env uid st) = Inr r"
  shows "(\<exists>reply. r = [(''response'', JString reply), (''success'', JBool True)]) \<or>
         (\<exists>err. r = [(''error'', JString err), (''success'', JBool False)])"
proof (cases "agent st")
  case (Some a)
  with assms show ?thesis
    by (auto simp add: clear_conversation_ready split: sum.splits if_splits)
next
  case None
  show ?thesis
  proof (cases "IntelligentAgent env")
    case (Inl e)
    with None assms show ?thesis
      by (auto simp add: clear_conversation_def initialize_agent_def split: if_splits)
  next
    case (Inr a)
    with None assms show ?thesis
      by (auto simp add: clear_conversation_constructs clear_conversation_ready logged_def
          split: sum.splits if_splits)
  qed
qed

lemma get_help_shape:
  assumes "fst (get_help env st) = Inr r"
  shows "(\<exists>reply. r = [(''response'', JString reply), (''success'', JBool True)]) \<or>
         (\<exists>err reply. r = [(''error'', JString err), (''response'', JString reply)])"
proof (cases "agent st")
  case (Some a)
  with assms show ?thesis
    by (auto simp add: get_help_ready split: sum.splits if_splits)
next
  case None
  with assms show ?thesis
    by (auto simp add: get_help_uninitialized)
qed

lemma analyze_conversation_ready_shape:
  assumes "agent st = Some a" and "fst (analyze_conversation env uid st) = Inr r"
  shows "(\<exists>reply. r = [(''response'', JString reply), (''success'', JBool True)]) \<or>
         (\<exists>err reply. r = [(''error'', JString err), (''response'', JString reply)])"
proof (cases "try_bind (memory_analyze_conversation env a (user_id_or_default uid)) format_analysis")
  case (Inl e)
  with assms show ?thesis
    by (auto simp add: analyze_conversation_ready except_Exception_def split: if_splits)
next
  case (Inr r')
  then obtain an where "format_analysis an = Inr r'"
    by (auto simp add: try_bind_def split: sum.splits)
  then obtain reply where "r' = [(''response'', JString reply), (''success'', JBool True)]"
    using format_analysis_shape by blast
  with assms Inr show ?thesis
    by (auto simp add: analyze_conversation_ready except_Exception_def)
qed

lemma analyze_conversation_shape:
  assumes "fst (analyze_conversation env uid st) = Inr r"
  shows "(\<exists>reply. r = [(''response'', JString reply), (''success'', JBool True)]) \<or>
         (\<exists>err reply. r = [(''error'', JString err), (''response'', JString reply)])"
proof (cases "agent st")
  case (Some a)
  from this assms show ?thesis
    by (rule analyze_conversation_ready_shape)
next
  case None
  show ?thesis
  proof (cases "IntelligentAgent env")
    case (Inl e)
    with None assms show ?thesis
      by (auto simp add: analyze_conversation_def initialize_agent_def agent_unavailable_def
          split: if_splits)
  next
    case (Inr a)
    have ready: "agent (logged Construct (st\<lparr>agent := Some a\<rparr>)) = Some a"
      by (simp add: logged_def)
    from None Inr assms
    have "fst (analyze_conversation env uid (logged Construct (st\<lparr>agent := Some a\<rparr>))) = Inr r"
      by (simp add: analyze_conversation_constructs)
    with ready show ?thesis
      by (rule analyze_conversation_ready_shape)
  qed
qed

lemma test_tools_shape:
  "(\<exists>entries. fst (test_tools st) =
       [(''test_results'', JObject entries), (''success'', JBool True)]) \<or>
   fst (test_tools st) = [(''error'', JString ''Agent not initialized''), (''success'', JBool False)]"
  by (simp add: test_tools_def)

text \<open>
  Claim C1, as stated, fails: when the constructor raises, \<^verbatim>\<open>process_message\<close> makes
  \<^verbatim>\<open>main\<close> print a Result with \<^verbatim>\<open>error\<close> and \<^verbatim>\<open>response\<close> and no \<^verbatim>\<open>success\<close>.
\<close>

theorem process_message_failure_has_no_success_field:
  "primary (main failing_env [''python_bridge.py'', ''process_message'', ''hello'']) =
     [[(''error'', JString ''Failed to initialize intelligent agent''),
       (''response'', JString ''I'm sorry, but I'm having trouble connecting to my AI brain right now. Please try again later.'')]] \<and>
   exit_code (main failing_env [''python_bridge.py'', ''process_message'', ''hello'']) = 0 \<and>
   \<not> has_field
       (hd (primary (main failing_env [''python_bridge.py'', ''process_message'', ''hello''])))
       ''success''"
  by (simp add: main_dispatch finish_def process_message_def initialize_agent_def
      failing_env_def start_def agent_unavailable_def has_field_def)

text \<open>
  Claim C1, amended. For every supported command, a Result that \<^verbatim>\<open>main\<close> prints on the
  primary stream has \<^verbatim>\<open>success: true\<close> when it has no \<^verbatim>\<open>error\<close> field. When it has an
  \<^verbatim>\<open>error\<close> field, it has \<^verbatim>\<open>success: false\<close> if the command is \<^verbatim>\<open>clear_conversation\<close>
  or \<^verbatim>\<open>test_tools\<close>, and no \<^verbatim>\<open>success\<close> field if the command is \<^verbatim>\<open>process_message\<close>,
  \<^verbatim>\<open>get_help\<close> or \<^verbatim>\<open>analyze_conversation\<close>.
\<close>

theorem success_field_of_emitted_result:
  assumes "command \<in> set supported_commands"
    and "r \<in> set (primary (main env (prog # command # args)))"
  shows "if has_field r ''error'' then
           map_of r ''success'' =
             (if command = ''clear_conversation'' \<or> command = ''test_tools''
              then Some (JBool False) else None)
         else map_of r ''success'' = Some (JBool True)"
proof -
  from assms(1) have "command = ''process_message'' \<or> command = ''clear_conversation'' \<or>
      command = ''get_help'' \<or> command = ''test_tools'' \<or>
      command = ''analyze_conversation''"
    by (simp add: supported_commands_def)
  then show ?thesis
  proof (elim disjE)
    assume pm: "command = ''process_message''"
    show ?thesis
    proof (cases args)
      case Nil
      with pm assms(2) show ?thesis
        by (auto simp add: main_dispatch has_field_def dest!: primary_finish)
    next
      case (Cons message rest)
      show ?thesis
      proof (cases rest)
        case Nil
        with pm Cons assms(2)
        have "fst (process_message env message (Some ''web-user'') start) = Inr r"
          by (auto simp add: main_dispatch dest!: primary_finish)
        from process_message_shape [OF this] pm show ?thesis
          by (auto simp add: has_field_def)
      next
        case (Cons user_id extra)
        with pm \<open>args = message # rest\<close> assms(2)
        have "fst (process_message env message (Some user_id) start) = Inr r"
          by (auto simp add: main_dispatch dest!: primary_finish)
        from process_message_shape [OF this] pm show ?thesis
          by (auto simp add: has_field_def)
      qed
    qed
  next
    assume cc: "command = ''clear_conversation''"
    show ?thesis
    proof (cases args)
      case Nil
      with cc assms(2)
      have "fst (clear_conversation env (Some ''web-user'') start) = Inr r"
        by (auto simp add: main_dispatch dest!: primary_finish)
      from clear_conversation_shape [OF this] cc show ?thesis
        by (auto simp add: has_field_def)
    next
      case (Cons user_id extra)
      with cc assms(2)
      have "fst (clear_conversation env (Some user_id) start) = Inr r"
        by (auto simp add: main_dispatch dest!: primary_finish)
      from clear_conversation_shape [OF this] cc show ?thesis
        by (auto simp add: has_field_def)
    qed
  next
    assume gh: "command = ''get_help''"
    with assms(2) have "fst (get_help env start) = Inr r"
      by (auto simp add: main_dispatch dest!: primary_finish)
    from get_help_shape [OF this] gh show ?thesis
      by (auto simp add: has_field_def)
  next
    assume tt: "command = ''test_tools''"
    with assms(2) have "fst (test_tools (start :: 'a bridge_state)) = r"
      by (auto simp add: main_dispatch returned_def dest!: primary_finish)
    with test_tools_shape [of "start :: 'a bridge_state"] tt show ?thesis
      by (auto simp add: has_field_def)
  next
    assume ac: "command = ''analyze_conversation''"
    show ?thesis
    proof (cases args)
      case Nil
      with ac assms(2)
      have "fst (analyze_conversation env (Some ''web-user'') start) = Inr r"
        by (auto simp add: main_dispatch dest!: primary_finish)
      from analyze_conversation_shape [OF this] ac show ?thesis
        by (auto simp add: has_field_def)
    next
      case (Cons user_id extra)
      with ac assms(2)
      have "fst (analyze_conversation env (Some user_id) start) = Inr r"
        by (auto simp add: main_dispatch dest!: primary_finish)
      from analyze_conversation_shape [OF this] ac show ?thesis
        by (auto simp add: has_field_def)
    qed
  qed
qed

theorem success_field_of_emitted_result_witness:
  "''clear_conversation'' \<in> set supported_commands \<and>
   [(''error'', JString ''Failed to initialize intelligent agent''), (''success'', JBool False)]
     \<in> set (primary (main failing_env [''python_bridge.py'', ''clear_conversation''])) \<and>
   has_field
     [(''error'', JString ''Failed to initialize intelligent agent''), (''success'', JBool False)]
     ''error'' \<and>
   map_of
     [(''error'', JString ''Failed to initialize intelligent agent''), (''success'', JBool False)]
     ''success'' = Some (JBool False)"
proof -
  have h1: "''clear_conversation'' \<in> set supported_commands"
    by (simp add: supported_commands_def)
  have h2: "[(''error'', JString ''Failed to initialize intelligent agent''),
             (''success'', JBool False)]
      \<in> set (primary (main failing_env [''python_bridge.py'', ''clear_conversation'']))"
    by (simp add: main_dispatch finish_def clear_conversation_def initialize_agent_def
        failing_env_def start_def)
  from success_field_of_emitted_result [OF h1 h2]
  have "map_of
      [(''error'', JString ''Failed to initialize intelligent agent''), (''success'', JBool False)]
      ''success'' = Some (JBool False)"
    by (simp add: has_field_def)
  with h1 h2 show ?thesis
    by (simp add: has_field_def)
qed

end
